theory Spec2Isabelle
  imports Main
begin

section \<open>Book Management API: the data model\<close>

text \<open>
  The service of \<^verbatim>\<open>main.go\<close> keeps one process-wide map from integer ids to books and
  answers HTTP requests on two registered patterns, \<^verbatim>\<open>/books\<close> and \<^verbatim>\<open>/books/\<close>.
  Each handler takes the lock on entry and releases it on return, so a handler is modelled
  as one function from the map before the request to the response and the map after it.
\<close>

record Book =
  ID :: int
  Title :: string
  Description :: string
  Author :: string
  PublicationYear :: int

text \<open>The global \<^verbatim>\<open>books = make(map[int]Book)\<close>.\<close>

type_synonym store = "int \<rightharpoonup> Book"

text \<open>
  \<^verbatim>\<open>var newBook Book\<close> declares a struct whose fields hold Go's zero values.
\<close>

definition zeroBook :: Book where
  "zeroBook = \<lparr>ID = 0, Title = [], Description = [], Author = [], PublicationYear = 0\<rparr>"

subsection \<open>Requests and responses\<close>

text \<open>
  A JSON value as the decoder sees it once the text is scanned. Object members keep their
  order and their duplicates; member names and strings are the unquoted byte strings
  (UTF-8). A number literal is \<open>JInt\<close> when it has neither fraction nor exponent and
  \<open>JFraction\<close> otherwise (its value never reaches a \<open>Book\<close>).
\<close>

datatype json =
    JNull
  | JBool bool
  | JInt int
  | JFraction
  | JString string
  | JArray "json list"
  | JObject "(string \<times> json) list"

text \<open>
  The parts of \<^verbatim>\<open>*http.Request\<close> the handlers read: \<^verbatim>\<open>r.Method\<close>, \<^verbatim>\<open>r.URL.Path\<close> and
  \<^verbatim>\<open>r.Body\<close>. The body is given by the first JSON value of the stream, which is all that
  \<^verbatim>\<open>Decoder.Decode\<close> consumes; \<open>None\<close> is a body that is empty or does not start with a
  well-formed JSON value. \<open>Path\<close> is the path as it stands in the request line; paths
  that need percent-encoding, and query strings, are not modelled.
\<close>

record request =
  Method :: string
  Path :: string
  Body :: "json option"

text \<open>
  What a handler writes: the status code, the \<^verbatim>\<open>Content-Type\<close> header it sets itself
  (\<open>None\<close> when it sets none), and the body. \<open>JsonBook b\<close> and \<open>JsonBooks m\<close> stand for
  the output of \<^verbatim>\<open>json.NewEncoder(w).Encode\<close> on a book and on the whole map; \<open>Text\<close>
  is a plain message; \<open>Empty\<close> is no body at all; \<open>RedirectTo p\<close> is what
  \<^verbatim>\<open>http.Redirect\<close> writes, the \<^verbatim>\<open>Location\<close> header \<open>p\<close> (and, for a GET, a short
  note that links to it). Encoding a \<open>Book\<close> or a map of books cannot fail, and writes
  to the connection are taken to succeed, so the status 500 branches of the handlers have
  no counterpart here.
\<close>

datatype payload =
    Empty
  | Text string
  | JsonBook Book
  | JsonBooks store
  | RedirectTo string

record response =
  status :: nat
  contentType :: "string option"
  body :: payload

abbreviation StatusOK :: nat where "StatusOK \<equiv> 200"
abbreviation StatusCreated :: nat where "StatusCreated \<equiv> 201"
abbreviation StatusNoContent :: nat where "StatusNoContent \<equiv> 204"
abbreviation StatusTemporaryRedirect :: nat where "StatusTemporaryRedirect \<equiv> 307"
abbreviation StatusBadRequest :: nat where "StatusBadRequest \<equiv> 400"
abbreviation StatusNotFound :: nat where "StatusNotFound \<equiv> 404"
abbreviation StatusMethodNotAllowed :: nat where "StatusMethodNotAllowed \<equiv> 405"
abbreviation StatusConflict :: nat where "StatusConflict \<equiv> 409"

text \<open>
  \<^verbatim>\<open>http.Error(w, msg, code)\<close> sets a plain-text content type, writes the status and
  prints the message followed by a newline.
\<close>

definition httpError :: "string \<Rightarrow> nat \<Rightarrow> response" where
  "httpError msg code =
     \<lparr>status = code, contentType = Some ''text/plain; charset=utf-8'',
      body = Text (msg @ [CHR 0x0A])\<rparr>"

text \<open>
  \<^verbatim>\<open>http.Redirect(w, r, url, code)\<close> sets the \<^verbatim>\<open>Location\<close> header and writes the status;
  it sets a content type only when the request is a GET or a HEAD.
\<close>

definition Redirect :: "request \<Rightarrow> string \<Rightarrow> nat \<Rightarrow> response" where
  "Redirect r url code =
     \<lparr>status = code,
      contentType = (if Method r = ''GET'' \<or> Method r = ''HEAD''
                     then Some ''text/html; charset=utf-8'' else None),
      body = RedirectTo url\<rparr>"

section \<open>Library functions the handlers call\<close>

subsection \<open>\<^verbatim>\<open>strings.TrimPrefix\<close> and \<^verbatim>\<open>strconv.Atoi\<close>\<close>

definition HasPrefix :: "string \<Rightarrow> string \<Rightarrow> bool" where
  "HasPrefix s p = (take (length p) s = p)"

definition TrimPrefix :: "string \<Rightarrow> string \<Rightarrow> string" where
  "TrimPrefix s p = (if HasPrefix s p then drop (length p) s else s)"

text \<open>
  \<^verbatim>\<open>strconv.Atoi\<close> accepts an optional sign followed by at least one decimal digit and
  nothing else, and fails when the value does not fit Go's 64-bit \<^verbatim>\<open>int\<close>.
\<close>

fun digitsValue :: "string \<Rightarrow> int \<Rightarrow> int option" where
  "digitsValue [] n = Some n"
| "digitsValue (ch # s) n =
     (let v = (of_char ch :: nat)
      in if 48 \<le> v \<and> v \<le> 57 then digitsValue s (n * 10 + (int v - 48)) else None)"

definition inInt64 :: "int \<Rightarrow> bool" where
  "inInt64 n = (- (2 ^ 63) \<le> n \<and> n < 2 ^ 63)"

definition Atoi :: "string \<Rightarrow> int option" where
  "Atoi s =
     (case s of
        [] \<Rightarrow> None
      | ch # rest \<Rightarrow>
          (let neg = (ch = CHR ''-'');
               ds = (if ch = CHR ''-'' \<or> ch = CHR ''+'' then rest else s)
           in if ds = [] then None
              else (case digitsValue ds 0 of
                      None \<Rightarrow> None
                    | Some n \<Rightarrow>
                        (let v = (if neg then - n else n)
                         in if inInt64 v then Some v else None))))"

subsection \<open>The multiplexer's \<^verbatim>\<open>cleanPath\<close>\<close>

text \<open>
  Before it looks for a handler, the multiplexer brings the path into canonical form with
  \<^verbatim>\<open>path.Clean\<close>: the path is cut at its slashes, empty elements and \<^verbatim>\<open>.\<close> are dropped,
  \<^verbatim>\<open>..\<close> removes the element before it (and is dropped at the root), and the elements
  that remain are joined again. \<open>splitSlash\<close> cuts, \<open>cleanElements\<close> walks the
  elements with the kept ones on a stack, \<open>joinSlash\<close> joins. \<open>Clean\<close> is
  \<^verbatim>\<open>path.Clean\<close> on a path that starts with a slash, the only kind \<open>cleanPath\<close> gives
  it. \<open>cleanPath\<close> puts back the trailing slash that \<^verbatim>\<open>path.Clean\<close> removes.
\<close>

fun splitSlash :: "string \<Rightarrow> string list" where
  "splitSlash [] = [[]]"
| "splitSlash (c # cs) =
     (if c = CHR ''/'' then [] # splitSlash cs
      else (case splitSlash cs of [] \<Rightarrow> [[c]] | e # es \<Rightarrow> (c # e) # es))"

fun cleanElements :: "string list \<Rightarrow> string list \<Rightarrow> string list" where
  "cleanElements [] kept = rev kept"
| "cleanElements (e # es) kept =
     (if e = [] \<or> e = ''.'' then cleanElements es kept
      else if e = ''..'' then cleanElements es (case kept of [] \<Rightarrow> [] | _ # k \<Rightarrow> k)
      else cleanElements es (e # kept))"

fun joinSlash :: "string list \<Rightarrow> string" where
  "joinSlash [] = []"
| "joinSlash [e] = e"
| "joinSlash (e # es) = e @ CHR ''/'' # joinSlash es"

definition Clean :: "string \<Rightarrow> string" where
  "Clean p = CHR ''/'' # joinSlash (cleanElements (splitSlash (drop 1 p)) [])"

definition cleanPath :: "string \<Rightarrow> string" where
  "cleanPath p =
     (if p = [] then ''/''
      else (let q = (if hd p \<noteq> CHR ''/'' then CHR ''/'' # p else p);
                np = Clean q
            in if last q = CHR ''/'' \<and> np \<noteq> ''/'' then np @ ''/'' else np))"

subsection \<open>\<^verbatim>\<open>json.Decoder.Decode\<close> into a \<open>Book\<close>\<close>

text \<open>
  A member name selects the struct field whose JSON name it equals under Unicode simple
  case folding. The five names are ASCII, so a name is compared byte by byte against the
  upper-case field name (\<open>upperByte\<close> is the code of a byte with ASCII lower case
  raised); besides the ASCII letters, only U+017F (bytes C5 BF, folding to S) and U+212A
  (bytes E2 84 AA, folding to K) fold to an ASCII letter.
\<close>

definition upperByte :: "char \<Rightarrow> nat" where
  "upperByte c = (let v = (of_char c :: nat) in if 97 \<le> v \<and> v \<le> 122 then v - 32 else v)"

fun equalFold :: "string \<Rightarrow> string \<Rightarrow> bool" where
  "equalFold key [] = (key = [])"
| "equalFold key (n # name) =
     (case key of
        [] \<Rightarrow> False
      | c # cs \<Rightarrow>
          if upperByte c = of_char n then equalFold cs name
          else if n = CHR ''S'' \<and> c = CHR 0xC5 \<and> take 1 cs = [CHR 0xBF]
            then equalFold (drop 1 cs) name
          else if n = CHR ''K'' \<and> c = CHR 0xE2 \<and> take 2 cs = [CHR 0x84, CHR 0xAA]
            then equalFold (drop 2 cs) name
          else False)"

text \<open>
  Storing a JSON value into an \<^verbatim>\<open>int\<close> field and into a \<^verbatim>\<open>string\<close> field: \<^verbatim>\<open>null\<close>
  leaves the field as it is, a value of the wrong kind (or an integer outside the 64-bit
  range) is an \<^verbatim>\<open>UnmarshalTypeError\<close>.
\<close>

fun storeInt :: "json \<Rightarrow> int \<Rightarrow> int option" where
  "storeInt JNull old = Some old"
| "storeInt (JInt n) old = (if inInt64 n then Some n else None)"
| "storeInt _ old = None"

fun storeString :: "json \<Rightarrow> string \<Rightarrow> string option" where
  "storeString JNull old = Some old"
| "storeString (JString s) old = Some s"
| "storeString _ old = None"

text \<open>
  One object member: the matching field is overwritten, a member that matches no field is
  skipped. \<open>None\<close> is a decoding error; the handlers drop the struct in that case.
\<close>

definition setMember :: "Book \<Rightarrow> string \<times> json \<Rightarrow> Book option" where
  "setMember b kv =
     (let key = fst kv; v = snd kv
      in if equalFold key ''ID'' then map_option (\<lambda>n. b\<lparr>ID := n\<rparr>) (storeInt v (ID b))
         else if equalFold key ''TITLE''
           then map_option (\<lambda>s. b\<lparr>Title := s\<rparr>) (storeString v (Title b))
         else if equalFold key ''DESCRIPTION''
           then map_option (\<lambda>s. b\<lparr>Description := s\<rparr>) (storeString v (Description b))
         else if equalFold key ''AUTHOR''
           then map_option (\<lambda>s. b\<lparr>Author := s\<rparr>) (storeString v (Author b))
         else if equalFold key ''PUBLICATION_YEAR''
           then map_option (\<lambda>n. b\<lparr>PublicationYear := n\<rparr>) (storeInt v (PublicationYear b))
         else Some b)"

fun setMembers :: "Book \<Rightarrow> (string \<times> json) list \<Rightarrow> Book option" where
  "setMembers b [] = Some b"
| "setMembers b (kv # kvs) =
     (case setMember b kv of None \<Rightarrow> None | Some b' \<Rightarrow> setMembers b' kvs)"

text \<open>
  Decoding into a struct that starts as \<open>zeroBook\<close>: an object fills the fields it
  names, \<^verbatim>\<open>null\<close> changes nothing, every other value is an error.
\<close>

fun unmarshalBook :: "json \<Rightarrow> Book option" where
  "unmarshalBook JNull = Some zeroBook"
| "unmarshalBook (JObject kvs) = setMembers zeroBook kvs"
| "unmarshalBook _ = None"

definition Decode :: "json option \<Rightarrow> Book option" where
  "Decode bd = (case bd of None \<Rightarrow> None | Some j \<Rightarrow> unmarshalBook j)"

section \<open>The handlers\<close>

definition getAllBooks :: "store \<Rightarrow> request \<Rightarrow> response \<times> store" where
  "getAllBooks books r =
     (\<lparr>status = StatusOK, contentType = Some ''application/json'', body = JsonBooks books\<rparr>,
      books)"

definition getBookById :: "store \<Rightarrow> request \<Rightarrow> response \<times> store" where
  "getBookById books r =
     (let idStr = TrimPrefix (Path r) ''/books/''
      in case Atoi idStr of
           None \<Rightarrow> (httpError ''Invalid book ID'' StatusBadRequest, books)
         | Some i \<Rightarrow>
             (case books i of
                None \<Rightarrow> (httpError ''Book not found'' StatusNotFound, books)
              | Some book \<Rightarrow>
                  (\<lparr>status = StatusOK, contentType = Some ''application/json'',
                    body = JsonBook book\<rparr>, books)))"

definition createBook :: "store \<Rightarrow> request \<Rightarrow> response \<times> store" where
  "createBook books r =
     (case Decode (Body r) of
        None \<Rightarrow> (httpError ''Invalid input'' StatusBadRequest, books)
      | Some newBook \<Rightarrow>
          if ID newBook = 0 then (httpError ''Book id is required'' StatusBadRequest, books)
          else if books (ID newBook) \<noteq> None
            then (httpError ''Book already exists'' StatusConflict, books)
          else (\<lparr>status = StatusCreated, contentType = None, body = JsonBook newBook\<rparr>,
                books(ID newBook \<mapsto> newBook)))"

definition updateBook :: "store \<Rightarrow> request \<Rightarrow> response \<times> store" where
  "updateBook books r =
     (let idStr = TrimPrefix (Path r) ''/books/''
      in case Atoi idStr of
           None \<Rightarrow> (httpError ''Invalid book ID'' StatusBadRequest, books)
         | Some i \<Rightarrow>
             if books i = None then (httpError ''Book not found'' StatusNotFound, books)
             else (case Decode (Body r) of
                     None \<Rightarrow> (httpError ''Invalid input'' StatusBadRequest, books)
                   | Some updatedBook \<Rightarrow>
                       if ID updatedBook \<noteq> i
                         then (httpError ''Book id in the URL must match the id in the body''
                                 StatusBadRequest, books)
                       else (\<lparr>status = StatusOK, contentType = None,
                              body = JsonBook updatedBook\<rparr>,
                             books(i \<mapsto> updatedBook))))"

definition deleteBook :: "store \<Rightarrow> request \<Rightarrow> response \<times> store" where
  "deleteBook books r =
     (let idStr = TrimPrefix (Path r) ''/books/''
      in case Atoi idStr of
           None \<Rightarrow> (httpError ''Invalid book ID'' StatusBadRequest, books)
         | Some i \<Rightarrow>
             if books i = None then (httpError ''Book not found'' StatusNotFound, books)
             else (\<lparr>status = StatusNoContent, contentType = None, body = Empty\<rparr>,
                   books(i := None)))"

text \<open>The function registered on \<^verbatim>\<open>/books/\<close> in \<^verbatim>\<open>main\<close>: a switch on the method.\<close>

definition booksItem :: "store \<Rightarrow> request \<Rightarrow> response \<times> store" where
  "booksItem books r =
     (if Method r = ''GET'' then getBookById books r
      else if Method r = ''POST'' then createBook books r
      else if Method r = ''PUT'' then updateBook books r
      else if Method r = ''DELETE'' then deleteBook books r
      else (httpError ''Unsupported method'' StatusMethodNotAllowed, books))"

text \<open>
  The default multiplexer with the two patterns of \<^verbatim>\<open>main\<close>. A request whose path is
  not in canonical form is answered by a redirect to the cleaned path and reaches no
  handler; only a CONNECT request is exempt from the cleaning. Otherwise \<^verbatim>\<open>/books\<close>
  matches that path alone, for every method; \<^verbatim>\<open>/books/\<close> matches every path below it;
  any other path gets the multiplexer's own 404. The redirect carries status 307 in the
  current library (301 in older releases).
\<close>

definition ServeMux :: "store \<Rightarrow> request \<Rightarrow> response \<times> store" where
  "ServeMux books r =
     (if Method r \<noteq> ''CONNECT'' \<and> cleanPath (Path r) \<noteq> Path r
        then (Redirect r (cleanPath (Path r)) StatusTemporaryRedirect, books)
      else if Path r = ''/books'' then getAllBooks books r
      else if HasPrefix (Path r) ''/books/'' then booksItem books r
      else (httpError ''404 page not found'' StatusNotFound, books))"

text \<open>Serving a sequence of requests one after the other.\<close>

fun serveAll :: "store \<Rightarrow> request list \<Rightarrow> store" where
  "serveAll books [] = books"
| "serveAll books (r # rs) = serveAll (snd (ServeMux books r)) rs"

section \<open>Predicates used in the statements\<close>

text \<open>Every entry of the map is stored under the id its own book carries.\<close>

definition keyedById :: "store \<Rightarrow> bool" where
  "keyedById books = (\<forall>k b. books k = Some b \<longrightarrow> ID b = k)"

text \<open>
  Some member of a JSON object selects the field with the given (upper-case) name.
\<close>

definition names :: "(string \<times> json) list \<Rightarrow> string \<Rightarrow> bool" where
  "names kvs field = (\<exists>kv \<in> set kvs. equalFold (fst kv) field)"

section \<open>Sample books and bodies\<close>

definition book7 :: Book where
  "book7 = \<lparr>ID = 7, Title = ''Dune'', Description = ''Sand'', Author = ''Herbert'',
            PublicationYear = 1965\<rparr>"

definition json7 :: json where
  "json7 = JObject [(''id'', JInt 7), (''title'', JString ''Dune''),
                    (''description'', JString ''Sand''), (''author'', JString ''Herbert''),
                    (''publication_year'', JInt 1965)]"

definition book7b :: Book where
  "book7b = \<lparr>ID = 7, Title = ''Dune Messiah'', Description = [], Author = [],
             PublicationYear = 0\<rparr>"

definition json7b :: json where
  "json7b = JObject [(''id'', JInt 7), (''title'', JString ''Dune Messiah'')]"

definition book8 :: Book where
  "book8 = \<lparr>ID = 8, Title = ''Emma'', Description = [], Author = ''Austen'',
            PublicationYear = 1815\<rparr>"

definition json8 :: json where
  "json8 = JObject [(''id'', JInt 8), (''title'', JString ''Emma''),
                    (''author'', JString ''Austen''), (''publication_year'', JInt 1815)]"

definition book5 :: Book where
  "book5 = \<lparr>ID = 5, Title = ''Ulysses'', Description = [], Author = ''Joyce'',
            PublicationYear = 1922\<rparr>"

definition json5 :: json where
  "json5 = JObject [(''id'', JInt 5), (''title'', JString ''Ulysses''),
                    (''author'', JString ''Joyce''), (''publication_year'', JInt 1922)]"

definition book6 :: Book where
  "book6 = \<lparr>ID = 6, Title = ''Dubliners'', Description = [], Author = [],
            PublicationYear = 0\<rparr>"

definition json6 :: json where
  "json6 = JObject [(''id'', JInt 6), (''title'', JString ''Dubliners'')]"

text \<open>The books of the wholesale-replacement example: id 1, first ``A'' by ``X'', then ``B''.\<close>

definition book1A :: Book where
  "book1A = \<lparr>ID = 1, Title = ''A'', Description = [], Author = ''X'', PublicationYear = 2000\<rparr>"

definition members1B :: "(string \<times> json) list" where
  "members1B = [(''id'', JInt 1), (''title'', JString ''B'')]"

definition book1B :: Book where
  "book1B = \<lparr>ID = 1, Title = ''B'', Description = [], Author = [], PublicationYear = 0\<rparr>"

text \<open>A body without an id member.\<close>

definition members0 :: "(string \<times> json) list" where
  "members0 = [(''title'', JString ''Untitled'')]"

definition book0 :: Book where
  "book0 = \<lparr>ID = 0, Title = ''Untitled'', Description = [], Author = [],
            PublicationYear = 0\<rparr>"

text \<open>
  A run of requests: two creations, a creation refused for its id, a replacement, and a
  creation undone by a deletion.
\<close>

definition session :: "request list" where
  "session =
     [\<lparr>Method = ''POST'', Path = ''/books/7'', Body = Some json7\<rparr>,
      \<lparr>Method = ''POST'', Path = ''/books/8'', Body = Some json8\<rparr>,
      \<lparr>Method = ''POST'', Path = ''/books/7'', Body = Some json7b\<rparr>,
      \<lparr>Method = ''PUT'', Path = ''/books/7'', Body = Some json7b\<rparr>,
      \<lparr>Method = ''POST'', Path = ''/books/5'', Body = Some json5\<rparr>,
      \<lparr>Method = ''DELETE'', Path = ''/books/5'', Body = None\<rparr>]"

section \<open>Evaluating the library functions on the samples\<close>

lemma Decode_json7: "Decode (Some json7) = Some book7"
  by (simp add: Decode_def json7_def book7_def setMember_def zeroBook_def upperByte_def
      inInt64_def)

lemma Decode_json7b: "Decode (Some json7b) = Some book7b"
  by (simp add: Decode_def json7b_def book7b_def setMember_def zeroBook_def upperByte_def
      inInt64_def)

lemma Decode_json8: "Decode (Some json8) = Some book8"
  by (simp add: Decode_def json8_def book8_def setMember_def zeroBook_def upperByte_def
      inInt64_def)

lemma Decode_json5: "Decode (Some json5) = Some book5"
  by (simp add: Decode_def json5_def book5_def setMember_def zeroBook_def upperByte_def
      inInt64_def)

lemma Decode_json6: "Decode (Some json6) = Some book6"
  by (simp add: Decode_def json6_def book6_def setMember_def zeroBook_def upperByte_def
      inInt64_def)

lemma Decode_members1B: "Decode (Some (JObject members1B)) = Some book1B"
  by (simp add: Decode_def members1B_def book1B_def setMember_def zeroBook_def upperByte_def
      inInt64_def)

lemma Decode_members0: "Decode (Some (JObject members0)) = Some book0"
  by (simp add: Decode_def members0_def book0_def setMember_def zeroBook_def upperByte_def)

lemma members1B_names:
  "\<not> names members1B ''AUTHOR''" "\<not> names members1B ''DESCRIPTION''"
  "\<not> names members1B ''PUBLICATION_YEAR''"
  by (simp_all add: names_def members1B_def upperByte_def)

lemma Atoi_1: "Atoi (TrimPrefix ''/books/1'' ''/books/'') = Some 1"
  by (simp add: TrimPrefix_def HasPrefix_def Atoi_def inInt64_def)

lemma Atoi_5: "Atoi (TrimPrefix ''/books/5'' ''/books/'') = Some 5"
  by (simp add: TrimPrefix_def HasPrefix_def Atoi_def inInt64_def)

lemma Atoi_7: "Atoi (TrimPrefix ''/books/7'' ''/books/'') = Some 7"
  by (simp add: TrimPrefix_def HasPrefix_def Atoi_def inInt64_def)

lemma Atoi_8: "Atoi (TrimPrefix ''/books/8'' ''/books/'') = Some 8"
  by (simp add: TrimPrefix_def HasPrefix_def Atoi_def inInt64_def)

lemma prefix_5: "HasPrefix ''/books/5'' ''/books/''"
  by (simp add: HasPrefix_def)

section \<open>Canonical paths\<close>

lemma clean_books: "cleanPath ''/books'' = ''/books''"
  by (simp add: cleanPath_def Clean_def)

lemma clean_1: "cleanPath ''/books/1'' = ''/books/1''"
  by (simp add: cleanPath_def Clean_def)

lemma clean_5: "cleanPath ''/books/5'' = ''/books/5''"
  by (simp add: cleanPath_def Clean_def)

lemma clean_7: "cleanPath ''/books/7'' = ''/books/7''"
  by (simp add: cleanPath_def Clean_def)

lemma clean_8: "cleanPath ''/books/8'' = ''/books/8''"
  by (simp add: cleanPath_def Clean_def)

lemma clean_new: "cleanPath ''/books/new'' = ''/books/new''"
  by (simp add: cleanPath_def Clean_def)

lemma clean_word: "cleanPath ''/books/not-a-number'' = ''/books/not-a-number''"
  by (simp add: cleanPath_def Clean_def)

lemma clean_double: "cleanPath ''/books//8'' = ''/books/8''"
  by (simp add: cleanPath_def Clean_def)

text \<open>
  A path \<^verbatim>\<open>/books/s\<close> whose last element \<open>s\<close> is not empty and holds neither a slash nor
  a dot is canonical.
\<close>

lemma splitSlash_plain: "CHR ''/'' \<notin> set s \<Longrightarrow> splitSlash s = [s]"
  by (induction s) auto

lemma splitSlash_books: "CHR ''/'' \<notin> set s \<Longrightarrow> splitSlash (''books/'' @ s) = [''books'', s]"
  by (simp add: splitSlash_plain)

lemma last_no_slash:
  "s \<noteq> [] \<Longrightarrow> \<forall>c \<in> set s. c \<noteq> CHR ''/'' \<and> c \<noteq> CHR ''.'' \<Longrightarrow> last s \<noteq> CHR ''/''"
  using last_in_set by blast

lemma not_dots:
  "\<forall>c \<in> set s. c \<noteq> CHR ''/'' \<and> c \<noteq> CHR ''.'' \<Longrightarrow> s \<noteq> ''.'' \<and> s \<noteq> ''..''"
  by (cases s) simp_all

lemma Clean_item:
  assumes "s \<noteq> []" "\<forall>c \<in> set s. c \<noteq> CHR ''/'' \<and> c \<noteq> CHR ''.''"
  shows "Clean (''/books/'' @ s) = ''/books/'' @ s"
proof -
  from assms(2) have "CHR ''/'' \<notin> set s" by blast
  then have sp: "splitSlash (''books/'' @ s) = [''books'', s]"
    by (rule splitSlash_books)
  from assms(2) have ne: "s \<noteq> ''.''" "s \<noteq> ''..''"
    using not_dots by blast+
  have d: "drop 1 (''/books/'' @ s) = ''books/'' @ s" by simp
  have "cleanElements [''books'', s] [] = [''books'', s]"
    using ne assms(1) by simp
  then show ?thesis
    unfolding Clean_def d sp by simp
qed

lemma cleanPath_item:
  assumes "s \<noteq> []" "\<forall>c \<in> set s. c \<noteq> CHR ''/'' \<and> c \<noteq> CHR ''.''"
  shows "cleanPath (''/books/'' @ s) = ''/books/'' @ s"
proof -
  have c: "Clean (''/books/'' @ s) = ''/books/'' @ s"
    using assms by (rule Clean_item)
  have l: "last (''/books/'' @ s) \<noteq> CHR ''/''"
    using assms by (simp add: last_no_slash)
  have h: "hd (''/books/'' @ s) = CHR ''/''" "''/books/'' @ s \<noteq> []"
    by simp_all
  show ?thesis
    unfolding cleanPath_def Let_def using c l h by presburger
qed

text \<open>What \<open>Atoi\<close> accepts is a sign and digits, so it holds no slash and no dot.\<close>

lemma digit_not_sep: "48 \<le> (of_char c :: nat) \<Longrightarrow> c \<noteq> CHR ''/'' \<and> c \<noteq> CHR ''.''"
  by auto

lemma digitsValue_chars:
  "digitsValue s n = Some m \<Longrightarrow> \<forall>c \<in> set s. c \<noteq> CHR ''/'' \<and> c \<noteq> CHR ''.''"
proof (induction s arbitrary: n)
  case Nil
  then show ?case by simp
next
  case (Cons a s)
  from Cons.prems have d: "48 \<le> (of_char a :: nat)"
    by (simp add: Let_def split: if_splits)
  from Cons.prems have "digitsValue s (n * 10 + (int (of_char a) - 48)) = Some m"
    by (simp add: Let_def split: if_splits)
  then have "\<forall>c \<in> set s. c \<noteq> CHR ''/'' \<and> c \<noteq> CHR ''.''"
    by (rule Cons.IH)
  with digit_not_sep [OF d] show ?case by simp
qed

lemma Atoi_chars:
  assumes "Atoi s = Some i"
  shows "s \<noteq> [] \<and> (\<forall>c \<in> set s. c \<noteq> CHR ''/'' \<and> c \<noteq> CHR ''.'')"
proof (cases s)
  case Nil
  with assms show ?thesis by (simp add: Atoi_def)
next
  case (Cons ch rest)
  show ?thesis
  proof (cases "ch = CHR ''-'' \<or> ch = CHR ''+''")
    case True
    with assms Cons have "\<exists>n. digitsValue rest 0 = Some n"
      by (simp add: Atoi_def Let_def split: if_splits option.splits)
    then obtain n where "digitsValue rest 0 = Some n" ..
    then have "\<forall>c \<in> set rest. c \<noteq> CHR ''/'' \<and> c \<noteq> CHR ''.''"
      by (rule digitsValue_chars)
    moreover from True have "ch \<noteq> CHR ''/'' \<and> ch \<noteq> CHR ''.''" by auto
    ultimately show ?thesis using Cons by simp
  next
    case False
    with assms Cons have "\<exists>n. digitsValue (ch # rest) 0 = Some n"
      by (simp add: Atoi_def Let_def split: if_splits option.splits)
    then obtain n where "digitsValue (ch # rest) 0 = Some n" ..
    then have "\<forall>c \<in> set (ch # rest). c \<noteq> CHR ''/'' \<and> c \<noteq> CHR ''.''"
      by (rule digitsValue_chars)
    with Cons show ?thesis by simp
  qed
qed

lemma HasPrefix_split: "HasPrefix p q \<Longrightarrow> p = q @ TrimPrefix p q"
  by (simp add: TrimPrefix_def HasPrefix_def) (metis append_take_drop_id)

lemma canonical_id_path:
  assumes "HasPrefix p ''/books/''" "Atoi (TrimPrefix p ''/books/'') = Some i"
  shows "cleanPath p = p"
proof -
  from assms(2) have "TrimPrefix p ''/books/'' \<noteq> []
      \<and> (\<forall>c \<in> set (TrimPrefix p ''/books/''). c \<noteq> CHR ''/'' \<and> c \<noteq> CHR ''.'')"
    by (rule Atoi_chars)
  then have "cleanPath (''/books/'' @ TrimPrefix p ''/books/'') =
      ''/books/'' @ TrimPrefix p ''/books/''"
    using cleanPath_item by blast
  with HasPrefix_split [OF assms(1)] show ?thesis by simp
qed

section \<open>Routing\<close>

lemma item_path_not_collection: "HasPrefix p ''/books/'' \<Longrightarrow> p \<noteq> ''/books''"
  by (auto simp: HasPrefix_def)

lemma ServeMux_item:
  "HasPrefix (Path r) ''/books/'' \<Longrightarrow> cleanPath (Path r) = Path r \<Longrightarrow>
   ServeMux books r = booksItem books r"
  by (simp add: ServeMux_def item_path_not_collection)

lemma ServeMux_post:
  "HasPrefix (Path r) ''/books/'' \<Longrightarrow> cleanPath (Path r) = Path r \<Longrightarrow> Method r = ''POST'' \<Longrightarrow>
   ServeMux books r = createBook books r"
  by (simp add: ServeMux_item booksItem_def)

lemma ServeMux_get:
  "HasPrefix (Path r) ''/books/'' \<Longrightarrow> cleanPath (Path r) = Path r \<Longrightarrow> Method r = ''GET'' \<Longrightarrow>
   ServeMux books r = getBookById books r"
  by (simp add: ServeMux_item booksItem_def)

lemma ServeMux_put:
  "HasPrefix (Path r) ''/books/'' \<Longrightarrow> cleanPath (Path r) = Path r \<Longrightarrow> Method r = ''PUT'' \<Longrightarrow>
   ServeMux books r = updateBook books r"
  by (simp add: ServeMux_item booksItem_def)

lemma ServeMux_delete:
  "HasPrefix (Path r) ''/books/'' \<Longrightarrow> cleanPath (Path r) = Path r \<Longrightarrow>
   Method r = ''DELETE'' \<Longrightarrow> ServeMux books r = deleteBook books r"
  by (simp add: ServeMux_item booksItem_def)

lemma ServeMux_collection:
  "Path r = ''/books'' \<Longrightarrow> ServeMux books r = getAllBooks books r"
  by (simp add: ServeMux_def clean_books)

section \<open>Creating a book and reading it back\<close>

lemma getBookById_found:
  "Atoi (TrimPrefix (Path g) ''/books/'') = Some i \<Longrightarrow> books i = Some b \<Longrightarrow>
   getBookById books g =
     (\<lparr>status = StatusOK, contentType = Some ''application/json'', body = JsonBook b\<rparr>, books)"
  by (simp add: getBookById_def)

lemma createBook_fresh:
  "Decode (Body r) = Some b \<Longrightarrow> ID b \<noteq> 0 \<Longrightarrow> books (ID b) = None \<Longrightarrow>
   createBook books r =
     (\<lparr>status = StatusCreated, contentType = None, body = JsonBook b\<rparr>, books(ID b \<mapsto> b))"
  by (simp add: createBook_def)

text \<open>
  Claim C1. A POST to a path below \<^verbatim>\<open>/books/\<close> in canonical form (the form in which the
  multiplexer hands a request to the handler) whose body decodes to a book \<open>b\<close> with a
  nonzero id that is not stored is answered 201 with \<open>b\<close> as JSON, and \<open>b\<close> is stored
  under its id. On the resulting map, a GET whose path names that id is answered 200 with the same
  record \<open>b\<close> (all five fields, since the whole record is equal), and a request for
  \<^verbatim>\<open>/books\<close> is answered 200 with a map that holds \<open>b\<close> at its id.
\<close>

theorem create_then_read:
  assumes post: "Method r = ''POST''" "HasPrefix (Path r) ''/books/''"
               "cleanPath (Path r) = Path r"
    and dec: "Decode (Body r) = Some b" "ID b \<noteq> 0" "books (ID b) = None"
    and get: "Method g = ''GET''" "HasPrefix (Path g) ''/books/''"
             "Atoi (TrimPrefix (Path g) ''/books/'') = Some (ID b)"
    and list: "Path l = ''/books''"
  shows "ServeMux books r =
           (\<lparr>status = StatusCreated, contentType = None, body = JsonBook b\<rparr>,
            books(ID b \<mapsto> b))
       \<and> ServeMux (books(ID b \<mapsto> b)) g =
           (\<lparr>status = StatusOK, contentType = Some ''application/json'', body = JsonBook b\<rparr>,
            books(ID b \<mapsto> b))
       \<and> ServeMux (books(ID b \<mapsto> b)) l =
           (\<lparr>status = StatusOK, contentType = Some ''application/json'',
             body = JsonBooks (books(ID b \<mapsto> b))\<rparr>, books(ID b \<mapsto> b))
       \<and> (books(ID b \<mapsto> b)) (ID b) = Some b"
proof -
  have c: "ServeMux books r =
      (\<lparr>status = StatusCreated, contentType = None, body = JsonBook b\<rparr>, books(ID b \<mapsto> b))"
    using post dec by (simp add: ServeMux_post createBook_fresh)
  have cg: "cleanPath (Path g) = Path g"
    using get(2,3) by (rule canonical_id_path)
  have g: "ServeMux (books(ID b \<mapsto> b)) g =
      (\<lparr>status = StatusOK, contentType = Some ''application/json'', body = JsonBook b\<rparr>,
       books(ID b \<mapsto> b))"
    using get cg by (simp add: ServeMux_get getBookById_found)
  have l: "ServeMux (books(ID b \<mapsto> b)) l = getAllBooks (books(ID b \<mapsto> b)) l"
    using list by (rule ServeMux_collection)
  show ?thesis
    using c g l by (simp add: getAllBooks_def)
qed

theorem create_then_read_witness:
  "Decode (Some json7) = Some book7 \<and> ID book7 = 7
   \<and> cleanPath ''/books/new'' = ''/books/new''
   \<and> ServeMux Map.empty \<lparr>Method = ''POST'', Path = ''/books/new'', Body = Some json7\<rparr> =
     (\<lparr>status = StatusCreated, contentType = None, body = JsonBook book7\<rparr>, [7 \<mapsto> book7])
   \<and> ServeMux [7 \<mapsto> book7] \<lparr>Method = ''GET'', Path = ''/books/7'', Body = None\<rparr> =
     (\<lparr>status = StatusOK, contentType = Some ''application/json'', body = JsonBook book7\<rparr>,
      [7 \<mapsto> book7])
   \<and> ServeMux [7 \<mapsto> book7] \<lparr>Method = ''GET'', Path = ''/books'', Body = None\<rparr> =
     (\<lparr>status = StatusOK, contentType = Some ''application/json'',
       body = JsonBooks [7 \<mapsto> book7]\<rparr>, [7 \<mapsto> book7])"
proof -
  let ?r = "\<lparr>Method = ''POST'', Path = ''/books/new'', Body = Some json7\<rparr>"
  let ?g = "\<lparr>Method = ''GET'', Path = ''/books/7'', Body = None\<rparr>"
  let ?l = "\<lparr>Method = ''GET'', Path = ''/books'', Body = None\<rparr>"
  have id7: "ID book7 = 7" by (simp add: book7_def)
  have h: "Method ?r = ''POST''" "HasPrefix (Path ?r) ''/books/''"
    "cleanPath (Path ?r) = Path ?r"
    "Decode (Body ?r) = Some book7" "ID book7 \<noteq> 0" "Map.empty (ID book7) = None"
    "Method ?g = ''GET''" "HasPrefix (Path ?g) ''/books/''"
    "Atoi (TrimPrefix (Path ?g) ''/books/'') = Some (ID book7)"
    "Path ?l = ''/books''"
    by (simp_all add: HasPrefix_def Decode_json7 Atoi_7 id7 clean_new)
  from create_then_read [OF h] show ?thesis
    by (simp add: id7 Decode_json7 clean_new)
qed

section \<open>One book per id\<close>

lemma keyedById_empty: "keyedById Map.empty"
  by (simp add: keyedById_def)

lemma keyedById_upd: "keyedById books \<Longrightarrow> ID b = k \<Longrightarrow> keyedById (books(k \<mapsto> b))"
  by (simp add: keyedById_def)

lemma keyedById_del: "keyedById books \<Longrightarrow> keyedById (books(k := None))"
  by (simp add: keyedById_def)

lemma getAllBooks_keyed: "keyedById books \<Longrightarrow> keyedById (snd (getAllBooks books r))"
  by (simp add: getAllBooks_def)

lemma getBookById_keyed: "keyedById books \<Longrightarrow> keyedById (snd (getBookById books r))"
  by (simp add: getBookById_def split: option.splits)

lemma createBook_keyed: "keyedById books \<Longrightarrow> keyedById (snd (createBook books r))"
  by (simp add: createBook_def keyedById_upd split: option.splits)

lemma updateBook_keyed: "keyedById books \<Longrightarrow> keyedById (snd (updateBook books r))"
  by (simp add: updateBook_def keyedById_upd split: option.splits)

lemma deleteBook_keyed: "keyedById books \<Longrightarrow> keyedById (snd (deleteBook books r))"
  by (simp add: deleteBook_def keyedById_del split: option.splits)

lemma booksItem_keyed: "keyedById books \<Longrightarrow> keyedById (snd (booksItem books r))"
  by (simp add: booksItem_def getBookById_keyed createBook_keyed updateBook_keyed
      deleteBook_keyed)

lemma ServeMux_keyed: "keyedById books \<Longrightarrow> keyedById (snd (ServeMux books r))"
  by (simp add: ServeMux_def getAllBooks_keyed booksItem_keyed)

lemma serveAll_keyed: "keyedById books \<Longrightarrow> keyedById (serveAll books rs)"
  by (induction rs arbitrary: books) (simp_all add: ServeMux_keyed)

lemma session_store: "serveAll Map.empty session = [7 \<mapsto> book7b, 8 \<mapsto> book8]"
  by (simp add: session_def ServeMux_def booksItem_def HasPrefix_def createBook_def
      updateBook_def deleteBook_def Decode_json7 Decode_json7b Decode_json8 Decode_json5
      Atoi_7 Atoi_5 clean_5 clean_7 clean_8 book7_def book7b_def book8_def book5_def
      fun_eq_iff)

text \<open>
  Claim C2. In the map reached from the empty one by any sequence of requests (creations,
  replacements, deletions and reads alike), every entry is stored under the id of its own
  book, and two entries whose books carry the same id are one and the same entry: there
  is at most one book per id.
\<close>

theorem store_keyed_by_id:
  "(\<forall>k b. serveAll Map.empty rs k = Some b \<longrightarrow> ID b = k)
   \<and> (\<forall>k k' b b'. serveAll Map.empty rs k = Some b \<and> serveAll Map.empty rs k' = Some b'
         \<and> ID b = ID b' \<longrightarrow> k = k' \<and> b = b')"
proof -
  have "keyedById (serveAll Map.empty rs)"
    by (rule serveAll_keyed [OF keyedById_empty])
  then have key: "\<And>k b. serveAll Map.empty rs k = Some b \<Longrightarrow> ID b = k"
    by (simp add: keyedById_def)
  have same: "k = k' \<and> b = b'"
    if "serveAll Map.empty rs k = Some b" "serveAll Map.empty rs k' = Some b'" "ID b = ID b'"
    for k k' b b'
  proof -
    from that key have "k = k'" by metis
    with that show ?thesis by simp
  qed
  show ?thesis
    using key same by blast
qed

theorem store_keyed_by_id_witness:
  "serveAll Map.empty session 7 = Some book7b \<and> serveAll Map.empty session 8 = Some book8
   \<and> serveAll Map.empty session 5 = None
   \<and> ID book7b = 7 \<and> ID book8 = 8"
proof -
  have s: "serveAll Map.empty session 7 = Some book7b"
    "serveAll Map.empty session 8 = Some book8" "serveAll Map.empty session 5 = None"
    by (simp_all add: session_store)
  with store_keyed_by_id [of session] show ?thesis
    by blast
qed

section \<open>The order of the checks in an update\<close>

text \<open>
  Claim C3, as stated, fails. \<open>updateBook\<close> looks the path id up in the map before it
  reads the body: a PUT to \<^verbatim>\<open>/books/5\<close> on the empty map with a body that is not JSON
  is answered 404, not 400.
\<close>

theorem update_malformed_absent_counterexample:
  "Decode (Body \<lparr>Method = ''PUT'', Path = ''/books/5'', Body = None\<rparr>) = None
   \<and> ServeMux Map.empty \<lparr>Method = ''PUT'', Path = ''/books/5'', Body = None\<rparr> =
       (httpError ''Book not found'' StatusNotFound, Map.empty)
   \<and> status (fst (ServeMux Map.empty \<lparr>Method = ''PUT'', Path = ''/books/5'', Body = None\<rparr>))
       \<noteq> StatusBadRequest"
  by (simp add: ServeMux_put prefix_5 clean_5 updateBook_def Atoi_5 Decode_def httpError_def)

text \<open>
  Claim C3, amended. For a PUT below \<^verbatim>\<open>/books/\<close> whose path id parses as the integer
  \<open>i\<close>, the handler first checks that \<open>i\<close> is stored and answers 404 when it is not,
  whatever the body; only then does it decode the body, answering 400 when the body does
  not decode or the decoded id differs from \<open>i\<close>, and 200 with the replacement made
  otherwise. So the answer is 404 exactly when \<open>i\<close> is absent, and 400 exactly when
  \<open>i\<close> is present and the body is malformed or carries another id.
\<close>

theorem update_checks_presence_first:
  assumes "Method r = ''PUT''" "HasPrefix (Path r) ''/books/''"
    and "Atoi (TrimPrefix (Path r) ''/books/'') = Some i"
  shows "ServeMux books r =
           (if books i = None then (httpError ''Book not found'' StatusNotFound, books)
            else case Decode (Body r) of
                   None \<Rightarrow> (httpError ''Invalid input'' StatusBadRequest, books)
                 | Some b \<Rightarrow>
                     if ID b \<noteq> i
                       then (httpError ''Book id in the URL must match the id in the body''
                               StatusBadRequest, books)
                     else (\<lparr>status = StatusOK, contentType = None, body = JsonBook b\<rparr>,
                           books(i \<mapsto> b)))
       \<and> (status (fst (ServeMux books r)) = StatusNotFound \<longleftrightarrow> books i = None)
       \<and> (status (fst (ServeMux books r)) = StatusBadRequest \<longleftrightarrow>
            books i \<noteq> None \<and>
            (Decode (Body r) = None \<or> (\<exists>b. Decode (Body r) = Some b \<and> ID b \<noteq> i)))"
proof -
  have "cleanPath (Path r) = Path r"
    using assms(2,3) by (rule canonical_id_path)
  with assms show ?thesis
    by (auto simp: ServeMux_put updateBook_def httpError_def split: option.splits)
qed

theorem update_checks_presence_first_witness:
  "ServeMux [5 \<mapsto> book5] \<lparr>Method = ''PUT'', Path = ''/books/5'', Body = None\<rparr> =
     (httpError ''Invalid input'' StatusBadRequest, [5 \<mapsto> book5])
   \<and> status (fst (ServeMux [5 \<mapsto> book5]
        \<lparr>Method = ''PUT'', Path = ''/books/5'', Body = None\<rparr>)) \<noteq> StatusNotFound"
proof -
  let ?r = "\<lparr>Method = ''PUT'', Path = ''/books/5'', Body = None\<rparr>"
  have h: "Method ?r = ''PUT''" "HasPrefix (Path ?r) ''/books/''"
    "Atoi (TrimPrefix (Path ?r) ''/books/'') = Some 5"
    by (simp_all add: prefix_5 Atoi_5)
  from update_checks_presence_first [OF h, of "[5 \<mapsto> book5]"] show ?thesis
    by (simp add: Decode_def httpError_def)
qed

section \<open>An update replaces the whole record\<close>

lemma setMember_Title:
  "setMember b kv = Some b' \<Longrightarrow> \<not> equalFold (fst kv) ''TITLE'' \<Longrightarrow> Title b' = Title b"
  by (auto simp: setMember_def Let_def split: if_splits)

lemma setMember_Description:
  "setMember b kv = Some b' \<Longrightarrow> \<not> equalFold (fst kv) ''DESCRIPTION'' \<Longrightarrow>
   Description b' = Description b"
  by (auto simp: setMember_def Let_def split: if_splits)

lemma setMember_Author:
  "setMember b kv = Some b' \<Longrightarrow> \<not> equalFold (fst kv) ''AUTHOR'' \<Longrightarrow> Author b' = Author b"
  by (auto simp: setMember_def Let_def split: if_splits)

lemma setMember_PublicationYear:
  "setMember b kv = Some b' \<Longrightarrow> \<not> equalFold (fst kv) ''PUBLICATION_YEAR'' \<Longrightarrow>
   PublicationYear b' = PublicationYear b"
  by (auto simp: setMember_def Let_def split: if_splits)

text \<open>
  A field that no member selects keeps the value it had before the object was read. The
  four proofs follow the members one by one, with the book generalised.
\<close>

lemma setMembers_Title:
  "setMembers b kvs = Some b' \<Longrightarrow> \<forall>kv \<in> set kvs. \<not> equalFold (fst kv) ''TITLE'' \<Longrightarrow>
   Title b' = Title b"
proof (induction kvs arbitrary: b)
  case Nil
  then show ?case by simp
next
  case (Cons kv kvs)
  then obtain c where c: "setMember b kv = Some c" "setMembers c kvs = Some b'"
    by (auto split: option.splits)
  with Cons have "Title b' = Title c" by simp
  moreover from c Cons.prems have "Title c = Title b"
    by (simp add: setMember_Title)
  ultimately show ?case by simp
qed

lemma setMembers_Description:
  "setMembers b kvs = Some b' \<Longrightarrow> \<forall>kv \<in> set kvs. \<not> equalFold (fst kv) ''DESCRIPTION'' \<Longrightarrow>
   Description b' = Description b"
proof (induction kvs arbitrary: b)
  case Nil
  then show ?case by simp
next
  case (Cons kv kvs)
  then obtain c where c: "setMember b kv = Some c" "setMembers c kvs = Some b'"
    by (auto split: option.splits)
  with Cons have "Description b' = Description c" by simp
  moreover from c Cons.prems have "Description c = Description b"
    by (simp add: setMember_Description)
  ultimately show ?case by simp
qed

lemma setMembers_Author:
  "setMembers b kvs = Some b' \<Longrightarrow> \<forall>kv \<in> set kvs. \<not> equalFold (fst kv) ''AUTHOR'' \<Longrightarrow>
   Author b' = Author b"
proof (induction kvs arbitrary: b)
  case Nil
  then show ?case by simp
next
  case (Cons kv kvs)
  then obtain c where c: "setMember b kv = Some c" "setMembers c kvs = Some b'"
    by (auto split: option.splits)
  with Cons have "Author b' = Author c" by simp
  moreover from c Cons.prems have "Author c = Author b"
    by (simp add: setMember_Author)
  ultimately show ?case by simp
qed

lemma setMembers_PublicationYear:
  "setMembers b kvs = Some b' \<Longrightarrow>
   \<forall>kv \<in> set kvs. \<not> equalFold (fst kv) ''PUBLICATION_YEAR'' \<Longrightarrow>
   PublicationYear b' = PublicationYear b"
proof (induction kvs arbitrary: b)
  case Nil
  then show ?case by simp
next
  case (Cons kv kvs)
  then obtain c where c: "setMember b kv = Some c" "setMembers c kvs = Some b'"
    by (auto split: option.splits)
  with Cons have "PublicationYear b' = PublicationYear c" by simp
  moreover from c Cons.prems have "PublicationYear c = PublicationYear b"
    by (simp add: setMember_PublicationYear)
  ultimately show ?case by simp
qed

lemma Decode_object_omitted:
  assumes "Decode (Some (JObject kvs)) = Some b"
  shows "(\<not> names kvs ''TITLE'' \<longrightarrow> Title b = [])
       \<and> (\<not> names kvs ''DESCRIPTION'' \<longrightarrow> Description b = [])
       \<and> (\<not> names kvs ''AUTHOR'' \<longrightarrow> Author b = [])
       \<and> (\<not> names kvs ''PUBLICATION_YEAR'' \<longrightarrow> PublicationYear b = 0)"
proof -
  from assms have s: "setMembers zeroBook kvs = Some b"
    by (simp add: Decode_def)
  show ?thesis
    using setMembers_Title [OF s] setMembers_Description [OF s] setMembers_Author [OF s]
      setMembers_PublicationYear [OF s]
    by (simp add: names_def zeroBook_def)
qed

text \<open>
  Claim C4. When \<open>i\<close> is stored (with any old record) and a PUT for \<open>i\<close> carries a body
  that decodes to a book \<open>b\<close> with id \<open>i\<close>, the answer is 200 with \<open>b\<close>, the entry at
  \<open>i\<close> becomes \<open>b\<close>, and a GET for \<open>i\<close> then returns exactly \<open>b\<close>: nothing of the old
  record enters the result. A field that the body's JSON object does not name is empty or
  zero in \<open>b\<close>.
\<close>

theorem update_replaces_wholesale:
  assumes put: "Method r = ''PUT''" "HasPrefix (Path r) ''/books/''"
               "Atoi (TrimPrefix (Path r) ''/books/'') = Some i"
    and old: "books i = Some old"
    and dec: "Decode (Body r) = Some b" "ID b = i"
    and get: "Method g = ''GET''" "HasPrefix (Path g) ''/books/''"
             "Atoi (TrimPrefix (Path g) ''/books/'') = Some i"
  shows "ServeMux books r =
           (\<lparr>status = StatusOK, contentType = None, body = JsonBook b\<rparr>, books(i \<mapsto> b))
       \<and> ServeMux (books(i \<mapsto> b)) g =
           (\<lparr>status = StatusOK, contentType = Some ''application/json'', body = JsonBook b\<rparr>,
            books(i \<mapsto> b))
       \<and> (\<forall>kvs. Body r = Some (JObject kvs) \<longrightarrow>
             (\<not> names kvs ''TITLE'' \<longrightarrow> Title b = [])
           \<and> (\<not> names kvs ''DESCRIPTION'' \<longrightarrow> Description b = [])
           \<and> (\<not> names kvs ''AUTHOR'' \<longrightarrow> Author b = [])
           \<and> (\<not> names kvs ''PUBLICATION_YEAR'' \<longrightarrow> PublicationYear b = 0))"
proof -
  have u: "ServeMux books r =
      (\<lparr>status = StatusOK, contentType = None, body = JsonBook b\<rparr>, books(i \<mapsto> b))"
    using put old dec canonical_id_path [OF put(2,3)] by (simp add: ServeMux_put updateBook_def)
  have g: "ServeMux (books(i \<mapsto> b)) g =
      (\<lparr>status = StatusOK, contentType = Some ''application/json'', body = JsonBook b\<rparr>,
       books(i \<mapsto> b))"
    using get canonical_id_path [OF get(2,3)] by (simp add: ServeMux_get getBookById_found)
  have o: "(\<not> names kvs ''TITLE'' \<longrightarrow> Title b = [])
         \<and> (\<not> names kvs ''DESCRIPTION'' \<longrightarrow> Description b = [])
         \<and> (\<not> names kvs ''AUTHOR'' \<longrightarrow> Author b = [])
         \<and> (\<not> names kvs ''PUBLICATION_YEAR'' \<longrightarrow> PublicationYear b = 0)"
    if "Body r = Some (JObject kvs)" for kvs
  proof -
    from that dec have "Decode (Some (JObject kvs)) = Some b" by simp
    then show ?thesis by (rule Decode_object_omitted)
  qed
  from u g o show ?thesis by blast
qed

theorem update_replaces_wholesale_witness:
  "[1 \<mapsto> book1A] 1 = Some book1A \<and> Author book1A = ''X''
   \<and> ServeMux [1 \<mapsto> book1A]
        \<lparr>Method = ''PUT'', Path = ''/books/1'', Body = Some (JObject members1B)\<rparr> =
       (\<lparr>status = StatusOK, contentType = None, body = JsonBook book1B\<rparr>, [1 \<mapsto> book1B])
   \<and> ServeMux [1 \<mapsto> book1B] \<lparr>Method = ''GET'', Path = ''/books/1'', Body = None\<rparr> =
       (\<lparr>status = StatusOK, contentType = Some ''application/json'', body = JsonBook book1B\<rparr>,
        [1 \<mapsto> book1B])
   \<and> Title book1B = ''B'' \<and> Author book1B = [] \<and> Description book1B = []
   \<and> PublicationYear book1B = 0"
proof -
  let ?r = "\<lparr>Method = ''PUT'', Path = ''/books/1'', Body = Some (JObject members1B)\<rparr>"
  let ?g = "\<lparr>Method = ''GET'', Path = ''/books/1'', Body = None\<rparr>"
  have h: "Method ?r = ''PUT''" "HasPrefix (Path ?r) ''/books/''"
    "Atoi (TrimPrefix (Path ?r) ''/books/'') = Some 1"
    "[1 \<mapsto> book1A] 1 = Some book1A"
    "Decode (Body ?r) = Some book1B" "ID book1B = 1"
    "Method ?g = ''GET''" "HasPrefix (Path ?g) ''/books/''"
    "Atoi (TrimPrefix (Path ?g) ''/books/'') = Some 1"
    by (simp_all add: HasPrefix_def Atoi_1 Decode_members1B book1B_def)
  have t: "Title book1B = ''B''" "Author book1A = ''X''"
    by (simp_all add: book1B_def book1A_def)
  from update_replaces_wholesale
         [where r = ?r and i = 1 and books = "[1 \<mapsto> book1A]" and old = book1A
            and b = book1B and g = ?g, OF h]
       members1B_names t
  show ?thesis
    by simp
qed

section \<open>Error responses leave the map alone\<close>

lemma getBookById_store: "snd (getBookById books r) = books"
  by (simp add: getBookById_def split: option.splits)

lemma getAllBooks_store: "snd (getAllBooks books r) = books"
  by (simp add: getAllBooks_def)

lemma createBook_error_store:
  "status (fst (createBook books r)) \<noteq> StatusCreated \<Longrightarrow> snd (createBook books r) = books"
  by (simp add: createBook_def split: option.splits if_splits)

lemma updateBook_error_store:
  "status (fst (updateBook books r)) \<noteq> StatusOK \<Longrightarrow> snd (updateBook books r) = books"
  by (auto simp: updateBook_def Let_def split: option.splits if_splits)

lemma deleteBook_error_store:
  "status (fst (deleteBook books r)) \<noteq> StatusNoContent \<Longrightarrow> snd (deleteBook books r) = books"
  by (simp add: deleteBook_def split: option.splits if_splits)

lemma booksItem_error_store:
  assumes "status (fst (booksItem books r)) \<in> {400, 404, 405, 409}"
  shows "snd (booksItem books r) = books"
proof -
  consider "Method r = ''GET''" | "Method r = ''POST''" | "Method r = ''PUT''"
    | "Method r = ''DELETE''"
    | "Method r \<noteq> ''GET''" "Method r \<noteq> ''POST''" "Method r \<noteq> ''PUT''"
      "Method r \<noteq> ''DELETE''"
    by blast
  then show ?thesis
  proof cases
    case 1
    then show ?thesis by (simp add: booksItem_def getBookById_store)
  next
    case 2
    with assms have "status (fst (createBook books r)) \<noteq> StatusCreated"
      by (auto simp: booksItem_def)
    with 2 show ?thesis by (simp add: booksItem_def createBook_error_store)
  next
    case 3
    with assms have "status (fst (updateBook books r)) \<noteq> StatusOK"
      by (auto simp: booksItem_def)
    with 3 show ?thesis by (simp add: booksItem_def updateBook_error_store)
  next
    case 4
    with assms have "status (fst (deleteBook books r)) \<noteq> StatusNoContent"
      by (auto simp: booksItem_def)
    with 4 show ?thesis by (simp add: booksItem_def deleteBook_error_store)
  next
    case 5
    then show ?thesis by (simp add: booksItem_def)
  qed
qed

lemma ServeMux_error_store:
  "status (fst (ServeMux books r)) \<in> {400, 404, 405, 409} \<Longrightarrow> snd (ServeMux books r) = books"
  by (simp add: ServeMux_def Redirect_def getAllBooks_store booksItem_error_store
      split: if_splits)

text \<open>
  Claim C5, as stated, fails in its second half. A PUT to \<^verbatim>\<open>/books/5\<close> with a body whose
  id is 6 is answered 404, not 400, when no book 5 is stored: the lookup of the path id
  comes before the body is read.
\<close>

theorem update_mismatch_absent_counterexample:
  "Decode (Some json6) = Some book6 \<and> ID book6 = 6
   \<and> ServeMux Map.empty \<lparr>Method = ''PUT'', Path = ''/books/5'', Body = Some json6\<rparr> =
       (httpError ''Book not found'' StatusNotFound, Map.empty)
   \<and> status (fst (ServeMux Map.empty
         \<lparr>Method = ''PUT'', Path = ''/books/5'', Body = Some json6\<rparr>)) \<noteq> StatusBadRequest"
  by (simp add: ServeMux_put prefix_5 clean_5 updateBook_def Atoi_5 Decode_json6 httpError_def
      book6_def)

text \<open>
  Claim C5, amended. Every request answered with status 400, 404, 405 or 409 leaves the
  map as it was. In particular a PUT to \<^verbatim>\<open>/books/5\<close> with a body whose id is 6 is
  answered 400 when a book 5 is stored and 404 when none is, and in both cases the map,
  hence the entries or absences at 5 and at 6, is unchanged.
\<close>

theorem error_leaves_store:
  "(status (fst (ServeMux books r)) \<in> {400, 404, 405, 409} \<longrightarrow> snd (ServeMux books r) = books)
   \<and> (Method r = ''PUT'' \<and> Path r = ''/books/5'' \<and> Decode (Body r) = Some b \<and> ID b = 6 \<longrightarrow>
        status (fst (ServeMux books r)) = (if books 5 = None then StatusNotFound
                                           else StatusBadRequest)
        \<and> snd (ServeMux books r) = books)"
proof -
  have "status (fst (ServeMux books r)) = (if books 5 = None then StatusNotFound
                                           else StatusBadRequest)
        \<and> snd (ServeMux books r) = books"
    if "Method r = ''PUT''" "Path r = ''/books/5''" "Decode (Body r) = Some b" "ID b = 6"
  proof -
    from that have "ServeMux books r = updateBook books r"
      by (simp add: ServeMux_put prefix_5 clean_5)
    with that show ?thesis
      by (simp add: updateBook_def Atoi_5 httpError_def)
  qed
  then show ?thesis
    using ServeMux_error_store by blast
qed

theorem error_leaves_store_witness:
  "status (fst (ServeMux [5 \<mapsto> book5]
      \<lparr>Method = ''PUT'', Path = ''/books/5'', Body = Some json6\<rparr>)) = StatusBadRequest
   \<and> snd (ServeMux [5 \<mapsto> book5]
      \<lparr>Method = ''PUT'', Path = ''/books/5'', Body = Some json6\<rparr>) = [5 \<mapsto> book5]
   \<and> [5 \<mapsto> book5] (5::int) = Some book5 \<and> [5 \<mapsto> book5] (6::int) = None"
proof -
  let ?r = "\<lparr>Method = ''PUT'', Path = ''/books/5'', Body = Some json6\<rparr>"
  have h: "Method ?r = ''PUT'' \<and> Path ?r = ''/books/5'' \<and> Decode (Body ?r) = Some book6
           \<and> ID book6 = 6"
    by (simp add: Decode_json6 book6_def)
  from error_leaves_store [of "[5 \<mapsto> book5]" ?r book6] h show ?thesis
    by simp
qed

section \<open>Deleting\<close>

text \<open>
  Claim C6. A DELETE whose path id parses as \<open>i\<close>: when \<open>i\<close> is stored, the answer is
  204 with no body and the entry is removed, so that the same DELETE on the resulting map
  is answered 404; when \<open>i\<close> is not stored, the answer is 404 and the map is unchanged.
\<close>

theorem delete_twice:
  assumes "Method r = ''DELETE''" "HasPrefix (Path r) ''/books/''"
    and "Atoi (TrimPrefix (Path r) ''/books/'') = Some i"
  shows "(books i \<noteq> None \<longrightarrow>
            ServeMux books r =
              (\<lparr>status = StatusNoContent, contentType = None, body = Empty\<rparr>, books(i := None))
          \<and> ServeMux (books(i := None)) r =
              (httpError ''Book not found'' StatusNotFound, books(i := None)))
       \<and> (books i = None \<longrightarrow>
            ServeMux books r = (httpError ''Book not found'' StatusNotFound, books))"
  using assms canonical_id_path [OF assms(2,3)] by (simp add: ServeMux_delete deleteBook_def)

theorem delete_twice_witness:
  "ServeMux [7 \<mapsto> book7] \<lparr>Method = ''DELETE'', Path = ''/books/7'', Body = None\<rparr> =
     (\<lparr>status = StatusNoContent, contentType = None, body = Empty\<rparr>, Map.empty)
   \<and> ServeMux Map.empty \<lparr>Method = ''DELETE'', Path = ''/books/7'', Body = None\<rparr> =
     (httpError ''Book not found'' StatusNotFound, Map.empty)"
proof -
  let ?r = "\<lparr>Method = ''DELETE'', Path = ''/books/7'', Body = None\<rparr>"
  have h: "Method ?r = ''DELETE''" "HasPrefix (Path ?r) ''/books/''"
    "Atoi (TrimPrefix (Path ?r) ''/books/'') = Some 7"
    by (simp_all add: HasPrefix_def Atoi_7)
  from delete_twice [OF h, of "[7 \<mapsto> book7]"] show ?thesis
    by simp
qed

section \<open>Creations that are refused\<close>

text \<open>
  Claim C7. For a create request, that is a POST to a path below \<^verbatim>\<open>/books/\<close> in
  canonical form, which the multiplexer hands to \<open>createBook\<close>: a body that does not decode is answered 400;
  a decoded id of zero is answered 400; a decoded nonzero id that is already stored is
  answered 409; and in each of the three cases the status is not 201 and the map is
  unchanged.
\<close>

theorem create_rejected:
  assumes "Method r = ''POST''" "HasPrefix (Path r) ''/books/''" "cleanPath (Path r) = Path r"
  shows "(Decode (Body r) = None \<longrightarrow>
            ServeMux books r = (httpError ''Invalid input'' StatusBadRequest, books))
       \<and> (\<forall>b. Decode (Body r) = Some b \<and> ID b = 0 \<longrightarrow>
            ServeMux books r = (httpError ''Book id is required'' StatusBadRequest, books))
       \<and> (\<forall>b. Decode (Body r) = Some b \<and> ID b \<noteq> 0 \<and> books (ID b) \<noteq> None \<longrightarrow>
            ServeMux books r = (httpError ''Book already exists'' StatusConflict, books))
       \<and> (Decode (Body r) = None
            \<or> (\<exists>b. Decode (Body r) = Some b \<and> (ID b = 0 \<or> books (ID b) \<noteq> None)) \<longrightarrow>
            status (fst (ServeMux books r)) \<noteq> StatusCreated \<and> snd (ServeMux books r) = books)"
proof -
  have m: "ServeMux books r = createBook books r"
    using assms by (simp add: ServeMux_post)
  have 1: "createBook books r = (httpError ''Invalid input'' StatusBadRequest, books)"
    if "Decode (Body r) = None"
    using that by (simp add: createBook_def)
  have 2: "createBook books r = (httpError ''Book id is required'' StatusBadRequest, books)"
    if "Decode (Body r) = Some b \<and> ID b = 0" for b
    using that by (simp add: createBook_def)
  have 3: "createBook books r = (httpError ''Book already exists'' StatusConflict, books)"
    if "Decode (Body r) = Some b \<and> ID b \<noteq> 0 \<and> books (ID b) \<noteq> None" for b
    using that by (simp add: createBook_def)
  have 4: "status (fst (createBook books r)) \<noteq> StatusCreated \<and> snd (createBook books r) = books"
    if "Decode (Body r) = None
          \<or> (\<exists>b. Decode (Body r) = Some b \<and> (ID b = 0 \<or> books (ID b) \<noteq> None))"
  proof -
    from that 1 2 3 have "status (fst (createBook books r)) \<in> {400, 409}
        \<and> snd (createBook books r) = books"
      by (cases "Decode (Body r)") (auto simp: createBook_def httpError_def)
    then show ?thesis by auto
  qed
  from 1 2 3 4 show ?thesis
    unfolding m by blast
qed

theorem create_rejected_witness:
  "ServeMux [7 \<mapsto> book7] \<lparr>Method = ''POST'', Path = ''/books/7'', Body = Some (JArray [])\<rparr> =
     (httpError ''Invalid input'' StatusBadRequest, [7 \<mapsto> book7])
   \<and> ServeMux [7 \<mapsto> book7]
       \<lparr>Method = ''POST'', Path = ''/books/7'', Body = Some (JObject members0)\<rparr> =
     (httpError ''Book id is required'' StatusBadRequest, [7 \<mapsto> book7])
   \<and> ServeMux [7 \<mapsto> book7] \<lparr>Method = ''POST'', Path = ''/books/7'', Body = Some json7b\<rparr> =
     (httpError ''Book already exists'' StatusConflict, [7 \<mapsto> book7])"
proof -
  let ?a = "\<lparr>Method = ''POST'', Path = ''/books/7'', Body = Some (JArray [])\<rparr>"
  let ?z = "\<lparr>Method = ''POST'', Path = ''/books/7'', Body = Some (JObject members0)\<rparr>"
  let ?d = "\<lparr>Method = ''POST'', Path = ''/books/7'', Body = Some json7b\<rparr>"
  have a: "Method ?a = ''POST''" "HasPrefix (Path ?a) ''/books/''"
    "cleanPath (Path ?a) = Path ?a"
    by (simp_all add: HasPrefix_def clean_7)
  have z: "Method ?z = ''POST''" "HasPrefix (Path ?z) ''/books/''"
    "cleanPath (Path ?z) = Path ?z"
    by (simp_all add: HasPrefix_def clean_7)
  have d: "Method ?d = ''POST''" "HasPrefix (Path ?d) ''/books/''"
    "cleanPath (Path ?d) = Path ?d"
    by (simp_all add: HasPrefix_def clean_7)
  have da: "Decode (Body ?a) = None"
    by (simp add: Decode_def)
  have dz: "Decode (Body ?z) = Some book0 \<and> ID book0 = 0"
    by (simp add: Decode_members0 book0_def)
  have dd: "Decode (Body ?d) = Some book7b \<and> ID book7b \<noteq> 0
            \<and> [7 \<mapsto> book7] (ID book7b) \<noteq> None"
    by (simp add: Decode_json7b book7b_def)
  from create_rejected [OF a, of "[7 \<mapsto> book7]"] da
  have 1: "ServeMux [7 \<mapsto> book7] ?a =
             (httpError ''Invalid input'' StatusBadRequest, [7 \<mapsto> book7])"
    by blast
  from create_rejected [OF z, of "[7 \<mapsto> book7]"] dz
  have 2: "ServeMux [7 \<mapsto> book7] ?z =
             (httpError ''Book id is required'' StatusBadRequest, [7 \<mapsto> book7])"
    by blast
  from create_rejected [OF d, of "[7 \<mapsto> book7]"] dd
  have 3: "ServeMux [7 \<mapsto> book7] ?d =
             (httpError ''Book already exists'' StatusConflict, [7 \<mapsto> book7])"
    by blast
  from 1 2 3 show ?thesis by blast
qed

section \<open>The path of a creation\<close>

text \<open>
  Claim C8, as stated, fails for path suffixes that are not in canonical form. A POST to
  \<^verbatim>\<open>/books//8\<close> and a POST to \<^verbatim>\<open>/books/8\<close> with the same body, on the same empty map,
  differ: the first is answered by the multiplexer's redirect and stores nothing, the
  second reaches \<open>createBook\<close>, is answered 201 and stores the book.
\<close>

theorem create_path_redirect_counterexample:
  "HasPrefix ''/books//8'' ''/books/'' \<and> HasPrefix ''/books/8'' ''/books/''
   \<and> ServeMux Map.empty \<lparr>Method = ''POST'', Path = ''/books//8'', Body = Some json7\<rparr> =
       (\<lparr>status = StatusTemporaryRedirect, contentType = None, body = RedirectTo ''/books/8''\<rparr>,
        Map.empty)
   \<and> ServeMux Map.empty \<lparr>Method = ''POST'', Path = ''/books/8'', Body = Some json7\<rparr> =
       (\<lparr>status = StatusCreated, contentType = None, body = JsonBook book7\<rparr>, [7 \<mapsto> book7])
   \<and> ServeMux Map.empty \<lparr>Method = ''POST'', Path = ''/books//8'', Body = Some json7\<rparr> \<noteq>
     ServeMux Map.empty \<lparr>Method = ''POST'', Path = ''/books/8'', Body = Some json7\<rparr>"
proof -
  have p: "HasPrefix ''/books//8'' ''/books/''" "HasPrefix ''/books/8'' ''/books/''"
    by (simp_all add: HasPrefix_def)
  have r: "ServeMux Map.empty \<lparr>Method = ''POST'', Path = ''/books//8'', Body = Some json7\<rparr> =
      (\<lparr>status = StatusTemporaryRedirect, contentType = None, body = RedirectTo ''/books/8''\<rparr>,
       Map.empty)"
    by (simp add: ServeMux_def clean_double Redirect_def)
  have c: "ServeMux Map.empty \<lparr>Method = ''POST'', Path = ''/books/8'', Body = Some json7\<rparr> =
      (\<lparr>status = StatusCreated, contentType = None, body = JsonBook book7\<rparr>, [7 \<mapsto> book7])"
    by (simp add: ServeMux_post HasPrefix_def clean_8 createBook_def Decode_json7 book7_def)
  from p r c show ?thesis
    by simp
qed

text \<open>
  Claim C8, amended. \<open>createBook\<close> does not read the path. Two POST requests to paths
  below \<^verbatim>\<open>/books/\<close> in canonical form (the paths the multiplexer hands to the handler)
  with the same body, served on the same map, get the same response (status and body)
  and leave the same map, whatever their path suffixes are, numeric or not; and changing
  the path of a request does not change what \<open>createBook\<close> returns.
\<close>

theorem create_ignores_path:
  assumes "Method r1 = ''POST''" "Method r2 = ''POST''"
    and "HasPrefix (Path r1) ''/books/''" "HasPrefix (Path r2) ''/books/''"
    and "cleanPath (Path r1) = Path r1" "cleanPath (Path r2) = Path r2"
    and "Body r1 = Body r2"
  shows "ServeMux books r1 = ServeMux books r2
       \<and> createBook books (r1\<lparr>Path := p\<rparr>) = createBook books r1"
  using assms by (simp add: ServeMux_post createBook_def)

theorem create_ignores_path_witness:
  "cleanPath ''/books/not-a-number'' = ''/books/not-a-number''
   \<and> cleanPath ''/books/8'' = ''/books/8''
   \<and> ServeMux Map.empty \<lparr>Method = ''POST'', Path = ''/books/not-a-number'', Body = Some json7\<rparr> =
     ServeMux Map.empty \<lparr>Method = ''POST'', Path = ''/books/8'', Body = Some json7\<rparr>
   \<and> ServeMux Map.empty \<lparr>Method = ''POST'', Path = ''/books/8'', Body = Some json7\<rparr> =
       (\<lparr>status = StatusCreated, contentType = None, body = JsonBook book7\<rparr>, [7 \<mapsto> book7])"
proof -
  let ?r1 = "\<lparr>Method = ''POST'', Path = ''/books/not-a-number'', Body = Some json7\<rparr>"
  let ?r2 = "\<lparr>Method = ''POST'', Path = ''/books/8'', Body = Some json7\<rparr>"
  have h: "Method ?r1 = ''POST''" "Method ?r2 = ''POST''"
    "HasPrefix (Path ?r1) ''/books/''" "HasPrefix (Path ?r2) ''/books/''"
    "cleanPath (Path ?r1) = Path ?r1" "cleanPath (Path ?r2) = Path ?r2"
    "Body ?r1 = Body ?r2"
    by (simp_all add: HasPrefix_def clean_word clean_8)
  have v: "ServeMux Map.empty ?r2 =
      (\<lparr>status = StatusCreated, contentType = None, body = JsonBook book7\<rparr>, [7 \<mapsto> book7])"
    by (simp add: ServeMux_post HasPrefix_def clean_8 createBook_def Decode_json7 book7_def)
  from create_ignores_path [OF h, of Map.empty] v show ?thesis
    by (simp add: clean_word clean_8)
qed

section \<open>The collection route\<close>

lemma getBookById_not_405: "status (fst (getBookById books r)) \<noteq> StatusMethodNotAllowed"
  by (simp add: getBookById_def httpError_def split: option.splits)

lemma createBook_not_405: "status (fst (createBook books r)) \<noteq> StatusMethodNotAllowed"
  by (simp add: createBook_def httpError_def split: option.splits)

lemma updateBook_not_405: "status (fst (updateBook books r)) \<noteq> StatusMethodNotAllowed"
  by (simp add: updateBook_def httpError_def split: option.splits)

lemma deleteBook_not_405: "status (fst (deleteBook books r)) \<noteq> StatusMethodNotAllowed"
  by (simp add: deleteBook_def httpError_def split: option.splits)

lemma booksItem_405:
  "status (fst (booksItem books r)) = StatusMethodNotAllowed \<Longrightarrow>
   Method r \<notin> {''GET'', ''POST'', ''PUT'', ''DELETE''}"
  using getBookById_not_405 [of books r] createBook_not_405 [of books r]
    updateBook_not_405 [of books r] deleteBook_not_405 [of books r]
  by (auto simp: booksItem_def split: if_splits)

text \<open>
  Claim C10. A request whose path is exactly \<^verbatim>\<open>/books\<close> is answered by \<open>getAllBooks\<close>
  whatever its method: status 200, the whole map as JSON, the map unchanged. Status 405
  is produced only below \<^verbatim>\<open>/books/\<close>, for a method that is none of GET, POST, PUT and
  DELETE.
\<close>

theorem collection_route_any_method:
  "(Path r = ''/books'' \<longrightarrow>
      ServeMux books r =
        (\<lparr>status = StatusOK, contentType = Some ''application/json'', body = JsonBooks books\<rparr>,
         books))
   \<and> (status (fst (ServeMux books r)) = StatusMethodNotAllowed \<longrightarrow>
        HasPrefix (Path r) ''/books/'' \<and> Method r \<notin> {''GET'', ''POST'', ''PUT'', ''DELETE''})"
proof -
  have "HasPrefix (Path r) ''/books/'' \<and> Method r \<notin> {''GET'', ''POST'', ''PUT'', ''DELETE''}"
    if s: "status (fst (ServeMux books r)) = StatusMethodNotAllowed"
  proof -
    have n: "\<not> (Method r \<noteq> ''CONNECT'' \<and> cleanPath (Path r) \<noteq> Path r)"
    proof
      assume "Method r \<noteq> ''CONNECT'' \<and> cleanPath (Path r) \<noteq> Path r"
      then have "status (fst (ServeMux books r)) = StatusTemporaryRedirect"
        by (simp add: ServeMux_def Redirect_def)
      with s show False by simp
    qed
    from s n have p: "Path r \<noteq> ''/books''"
      by (auto simp: ServeMux_def getAllBooks_def)
    from s n p have q: "HasPrefix (Path r) ''/books/''"
      by (auto simp: ServeMux_def httpError_def split: if_splits)
    from n p q have "ServeMux books r = booksItem books r"
      by (auto simp: ServeMux_def)
    with s have "status (fst (booksItem books r)) = StatusMethodNotAllowed"
      by simp
    with q show ?thesis
      using booksItem_405 by blast
  qed
  then show ?thesis
    by (simp add: ServeMux_collection getAllBooks_def)
qed

theorem collection_route_any_method_witness:
  "ServeMux [7 \<mapsto> book7] \<lparr>Method = ''DELETE'', Path = ''/books'', Body = None\<rparr> =
     (\<lparr>status = StatusOK, contentType = Some ''application/json'',
       body = JsonBooks [7 \<mapsto> book7]\<rparr>, [7 \<mapsto> book7])
   \<and> status (fst (ServeMux [7 \<mapsto> book7]
        \<lparr>Method = ''PATCH'', Path = ''/books/7'', Body = None\<rparr>)) = StatusMethodNotAllowed
   \<and> HasPrefix ''/books/7'' ''/books/''"
proof -
  let ?d = "\<lparr>Method = ''DELETE'', Path = ''/books'', Body = None\<rparr>"
  let ?p = "\<lparr>Method = ''PATCH'', Path = ''/books/7'', Body = None\<rparr>"
  have s: "status (fst (ServeMux [7 \<mapsto> book7] ?p)) = StatusMethodNotAllowed"
    by (simp add: ServeMux_def clean_7 booksItem_def HasPrefix_def httpError_def)
  from collection_route_any_method [of ?d "[7 \<mapsto> book7]"]
       collection_route_any_method [of ?p "[7 \<mapsto> book7]"] s
  show ?thesis
    by simp
qed

end
